theory Spec2Isabelle
  imports Main
begin

section \<open>Data model\<close>

text \<open>
  The pydantic models of \<^verbatim>\<open>semantic_chunking.py\<close>. Python integers are unbounded, so
  line numbers are \<^typ>\<open>int\<close>; a string is the list of its characters and \<^verbatim>\<open>len\<close> is
  \<^const>\<open>length\<close>.
\<close>

record Section =
  title :: string
  start_index :: int
  end_index :: int

record Chunk =
  chunk_start_index :: int

text \<open>The dictionaries built by \<^verbatim>\<open>get_sections_text\<close> (keys title, content, start, end).\<close>

record SectionDict =
  sd_title :: string
  sd_content :: string
  sd_start :: int
  sd_end :: int

text \<open>The dictionaries built by \<^verbatim>\<open>get_chunks_from_segments\<close> (keys title, content).\<close>

record ChunkDict =
  cd_title :: string
  cd_content :: string

text \<open>Exceptions the code can raise, as values. \<open>OracleError\<close> stands for whatever the
  call to the language model raises.\<close>

datatype py_error =
    IndexError
  | UnboundLocalError
  | ZeroDivisionError
  | ValueError
  | OracleError

section \<open>Python primitives used by the code\<close>

definition newline :: char where
  "newline = CHR 0x0A"

text \<open>\<^verbatim>\<open>xs[i]\<close>: a negative index counts from the end; out of range raises.\<close>

definition py_index :: "'a list \<Rightarrow> int \<Rightarrow> py_error + 'a" where
  "py_index xs i =
     (if 0 \<le> i \<and> i < int (length xs) then Inr (xs ! nat i)
      else if i < 0 \<and> - int (length xs) \<le> i then Inr (xs ! nat (int (length xs) + i))
      else Inl IndexError)"

text \<open>\<^verbatim>\<open>xs[lo:hi]\<close>: negative bounds count from the end, then both are clamped to
  \<open>0..len\<close>; the slice never raises.\<close>

definition py_clamp :: "nat \<Rightarrow> int \<Rightarrow> nat" where
  "py_clamp n i = (if i < 0 then nat (max 0 (int n + i)) else min n (nat i))"

definition py_slice :: "'a list \<Rightarrow> int \<Rightarrow> int \<Rightarrow> 'a list" where
  "py_slice xs lo hi =
     (let l = py_clamp (length xs) lo; h = py_clamp (length xs) hi
      in take (h - l) (drop l xs))"

text \<open>\<^verbatim>\<open>"\n".join(xs)\<close>.\<close>

fun join_nl :: "string list \<Rightarrow> string" where
  "join_nl [] = []"
| "join_nl [x] = x"
| "join_nl (x # y # ys) = x @ newline # join_nl (y # ys)"

text \<open>\<^verbatim>\<open>s.split("\n")\<close>: always at least one piece.\<close>

fun split_nl :: "string \<Rightarrow> string list" where
  "split_nl [] = [[]]"
| "split_nl (c # cs) =
     (if c = newline then [] # split_nl cs
      else (case split_nl cs of [] \<Rightarrow> [[c]] | l # ls \<Rightarrow> (c # l) # ls))"

text \<open>Decimal rendering of an integer inside an f-string.\<close>

fun str_nat :: "nat \<Rightarrow> string" where
  "str_nat n =
     (if n < 10 then [''0123456789'' ! n]
      else str_nat (n div 10) @ [''0123456789'' ! (n mod 10)])"

declare str_nat.simps [simp del]

definition str_int :: "int \<Rightarrow> string" where
  "str_int i = (if i < 0 then CHR ''-'' # str_nat (nat (- i)) else str_nat (nat i))"

section \<open>Line indexer and window text\<close>

definition get_document_lines :: "string \<Rightarrow> string list" where
  "get_document_lines document = split_nl document"

text \<open>One numbered line, \<^verbatim>\<open>f"[{i}] {line}\n"\<close>.\<close>

definition numbered_line :: "int \<Rightarrow> string \<Rightarrow> string" where
  "numbered_line i line = ''['' @ str_int i @ ''] '' @ line @ [newline]"

text \<open>
  The loop of \<^verbatim>\<open>get_document_with_lines\<close> over the indices of
  \<^verbatim>\<open>range(start_line, len(document_lines))\<close>, with the two accumulators. The only
  assignment to \<^verbatim>\<open>end_line\<close> is before the \<^verbatim>\<open>break\<close>; a loop that runs out of
  indices leaves it unbound, and the \<^verbatim>\<open>return\<close> raises.
\<close>

fun document_with_lines_loop ::
  "string list \<Rightarrow> int \<Rightarrow> string \<Rightarrow> int \<Rightarrow> int list \<Rightarrow> py_error + (string \<times> int)" where
  "document_with_lines_loop document_lines max_characters text character_count [] =
     Inl UnboundLocalError"
| "document_with_lines_loop document_lines max_characters text character_count (i # rest) =
     (case py_index document_lines i of
        Inl e \<Rightarrow> Inl e
      | Inr line \<Rightarrow>
          (let text' = text @ numbered_line i line;
               count' = character_count + int (length line)
           in if count' > max_characters \<or> i = int (length document_lines) - 1
              then Inr (text', i)
              else document_with_lines_loop document_lines max_characters text' count' rest))"

definition get_document_with_lines ::
  "string list \<Rightarrow> int \<Rightarrow> int \<Rightarrow> py_error + (string \<times> int)" where
  "get_document_with_lines document_lines start_line max_characters =
     document_with_lines_loop document_lines max_characters [] 0
       [start_line .. int (length document_lines) - 1]"

section \<open>Chunk target estimator and fallback decision\<close>

text \<open>\<^verbatim>\<open>//\<close> is floor division, as \<open>div\<close> on \<^typ>\<open>int\<close>; a zero divisor raises.\<close>

definition get_target_num_chunks :: "string \<Rightarrow> int \<Rightarrow> py_error + (int \<times> int)" where
  "get_target_num_chunks text max_characters =
     (if max_characters = 0 then Inl ZeroDivisionError
      else (let expected_num_chunks = int (length text) div max_characters + 1
            in if expected_num_chunks < 2 then Inr (1, 2)
               else Inr (expected_num_chunks - 1, expected_num_chunks + 1)))"

definition check_for_fallback_chunking_usage :: "int \<Rightarrow> int \<Rightarrow> 'a list \<Rightarrow> bool" where
  "check_for_fallback_chunking_usage min_num_chunks max_num_chunks chunks =
     (if int (length chunks) < min_num_chunks div 2 \<or> int (length chunks) > max_num_chunks * 2
      then True else False)"

section \<open>Content materializer\<close>

text \<open>
  \<^verbatim>\<open>get_sections_text\<close>: the loop over \<^verbatim>\<open>enumerate(sections)\<close>. The end of a section
  is read off the next section's start, the end of the last one is the last line of the
  document, and the content is the slice \<^verbatim>\<open>document_lines[s.start_index:end_index]\<close>.
\<close>

definition section_end_index :: "Section list \<Rightarrow> string list \<Rightarrow> nat \<Rightarrow> int" where
  "section_end_index sections document_lines i =
     (if int i = int (length sections) - 1 then int (length document_lines) - 1
      else start_index (sections ! (i + 1)) - 1)"

definition section_dict :: "Section list \<Rightarrow> string list \<Rightarrow> nat \<Rightarrow> SectionDict" where
  "section_dict sections document_lines i =
     (let s = sections ! i;
          end_index = section_end_index sections document_lines i;
          contents = py_slice document_lines (start_index s) end_index
      in \<lparr>sd_title = title s, sd_content = join_nl contents,
          sd_start = start_index s, sd_end = end_index\<rparr>)"

definition get_sections_text :: "Section list \<Rightarrow> string list \<Rightarrow> SectionDict list" where
  "get_sections_text sections document_lines =
     map (section_dict sections document_lines) [0 ..< length sections]"

text \<open>
  \<^verbatim>\<open>get_chunk_content\<close>: the lines \<open>start_index .. end_index\<close>, each followed by a
  newline; \<^verbatim>\<open>document_lines[i]\<close> raises out of range.
\<close>

fun chunk_content_loop :: "string list \<Rightarrow> string \<Rightarrow> int list \<Rightarrow> py_error + string" where
  "chunk_content_loop document_lines content [] = Inr content"
| "chunk_content_loop document_lines content (i # rest) =
     (case py_index document_lines i of
        Inl e \<Rightarrow> Inl e
      | Inr line \<Rightarrow> chunk_content_loop document_lines (content @ line @ [newline]) rest)"

definition get_chunk_content :: "int \<Rightarrow> int \<Rightarrow> string list \<Rightarrow> py_error + string" where
  "get_chunk_content start_index' end_index' document_lines =
     chunk_content_loop document_lines [] [start_index' .. end_index']"

section \<open>The oracle and the fallback splitter\<close>

text \<open>
  The two structured-output clients are external: each is a function from the model
  name and the request (the numbered text and the numbers formatted into the system
  prompt) to the decoded answer, or to the exception the call raised.
\<close>

record clients =
  anthropic_sections :: "string \<Rightarrow> string \<Rightarrow> int \<Rightarrow> int \<Rightarrow> py_error + Section list"
  openai_sections :: "string \<Rightarrow> string \<Rightarrow> int \<Rightarrow> int \<Rightarrow> py_error + Section list"
  anthropic_chunks :: "string \<Rightarrow> string \<Rightarrow> int \<Rightarrow> int \<Rightarrow> int \<Rightarrow> py_error + Chunk list"
  openai_chunks :: "string \<Rightarrow> string \<Rightarrow> int \<Rightarrow> int \<Rightarrow> int \<Rightarrow> py_error + Chunk list"

definition get_structured_document ::
  "clients \<Rightarrow> string \<Rightarrow> int \<Rightarrow> int \<Rightarrow> string \<Rightarrow> string \<Rightarrow> py_error + Section list" where
  "get_structured_document cl document_with_line_numbers start_line end_line llm_provider model =
     (if llm_provider = ''anthropic''
      then anthropic_sections cl model document_with_line_numbers start_line end_line
      else if llm_provider = ''openai''
      then openai_sections cl model document_with_line_numbers start_line end_line
      else Inl ValueError)"

definition get_structured_chunks ::
  "clients \<Rightarrow> string \<Rightarrow> int \<Rightarrow> int \<Rightarrow> int \<Rightarrow> string \<Rightarrow> string \<Rightarrow> py_error + Chunk list" where
  "get_structured_chunks cl document_with_line_numbers start_line min_chunks max_chunks
       llm_provider model =
     (if llm_provider = ''anthropic''
      then anthropic_chunks cl model document_with_line_numbers start_line min_chunks max_chunks
      else if llm_provider = ''openai''
      then openai_chunks cl model document_with_line_numbers start_line min_chunks max_chunks
      else Inl ValueError)"

text \<open>The calls a run makes to its collaborators, in order.\<close>

datatype call =
    ChunkOracleCall string int int int
  | SplitterCall string

section \<open>Chunks from segments\<close>

text \<open>The numbered text of a segment, lines \<open>start .. end\<close>.\<close>

fun numbered_lines_loop :: "string list \<Rightarrow> string \<Rightarrow> int list \<Rightarrow> py_error + string" where
  "numbered_lines_loop document_lines acc [] = Inr acc"
| "numbered_lines_loop document_lines acc (i # rest) =
     (case py_index document_lines i of
        Inl e \<Rightarrow> Inl e
      | Inr line \<Rightarrow> numbered_lines_loop document_lines (acc @ numbered_line i line) rest)"

text \<open>
  The branch that accepts the oracle's chunks: chunk \<open>i\<close> ends one line before chunk
  \<open>i + 1\<close> starts, and the last chunk ends at \<^verbatim>\<open>len(document_lines) - 1\<close>.
\<close>

definition chunk_end_index :: "Chunk list \<Rightarrow> string list \<Rightarrow> nat \<Rightarrow> int" where
  "chunk_end_index new_chunks document_lines i =
     (if int i = int (length new_chunks) - 1 then int (length document_lines) - 1
      else chunk_start_index (new_chunks ! (i + 1)) - 1)"

fun oracle_chunks_loop ::
  "string \<Rightarrow> Chunk list \<Rightarrow> string list \<Rightarrow> nat list \<Rightarrow> py_error + ChunkDict list" where
  "oracle_chunks_loop ttl new_chunks document_lines [] = Inr []"
| "oracle_chunks_loop ttl new_chunks document_lines (i # rest) =
     (case get_chunk_content (chunk_start_index (new_chunks ! i))
             (chunk_end_index new_chunks document_lines i) document_lines of
        Inl e \<Rightarrow> Inl e
      | Inr chunk_content \<Rightarrow>
          (case oracle_chunks_loop ttl new_chunks document_lines rest of
             Inl e \<Rightarrow> Inl e
           | Inr ds \<Rightarrow> Inr (\<lparr>cd_title = ttl, cd_content = chunk_content\<rparr> # ds)))"

text \<open>
  One iteration of the loop over the segments: the chunks it appends and the calls it
  makes. \<open>splitter\<close> is the recursive character splitter with chunk size 800 and no
  overlap, an external library.
\<close>

definition segment_chunks ::
  "clients \<Rightarrow> (string \<Rightarrow> string list) \<Rightarrow> string list \<Rightarrow> string \<Rightarrow> string \<Rightarrow> SectionDict
     \<Rightarrow> py_error + (ChunkDict list \<times> call list)" where
  "segment_chunks cl splitter document_lines llm_provider model segment =
     (let start_index' = sd_start segment; end_index' = sd_end segment; ttl = sd_title segment
      in case numbered_lines_loop document_lines [] [start_index' .. end_index'] of
           Inl e \<Rightarrow> Inl e
         | Inr document_with_line_numbers \<Rightarrow>
             if length document_with_line_numbers < 2000
             then (case get_chunk_content start_index' end_index' document_lines of
                     Inl e \<Rightarrow> Inl e
                   | Inr chunk_content \<Rightarrow>
                       Inr ([\<lparr>cd_title = ttl, cd_content = chunk_content\<rparr>], []))
             else (case get_target_num_chunks document_with_line_numbers 2000 of
                     Inl e \<Rightarrow> Inl e
                   | Inr (min_num_chunks, max_num_chunks) \<Rightarrow>
                      (case get_structured_chunks cl document_with_line_numbers start_index'
                              min_num_chunks max_num_chunks llm_provider model of
                         Inl e \<Rightarrow> Inl e
                       | Inr new_chunks \<Rightarrow>
                          (let oracle_call = ChunkOracleCall document_with_line_numbers
                                               start_index' min_num_chunks max_num_chunks
                           in if check_for_fallback_chunking_usage min_num_chunks
                                   max_num_chunks new_chunks
                              then (case get_chunk_content start_index' end_index'
                                           document_lines of
                                      Inl e \<Rightarrow> Inl e
                                    | Inr document_text \<Rightarrow>
                                        Inr (map (\<lambda>chunk. \<lparr>cd_title = ttl, cd_content = chunk\<rparr>)
                                               (splitter document_text),
                                             [oracle_call, SplitterCall document_text]))
                              else (case oracle_chunks_loop ttl new_chunks document_lines
                                           [0 ..< length new_chunks] of
                                      Inl e \<Rightarrow> Inl e
                                    | Inr ds \<Rightarrow> Inr (ds, [oracle_call]))))))"

fun get_chunks_from_segments ::
  "clients \<Rightarrow> (string \<Rightarrow> string list) \<Rightarrow> SectionDict list \<Rightarrow> string list \<Rightarrow> string \<Rightarrow> string
     \<Rightarrow> py_error + (ChunkDict list \<times> call list)" where
  "get_chunks_from_segments cl splitter [] document_lines llm_provider model = Inr ([], [])"
| "get_chunks_from_segments cl splitter (segment # segments) document_lines llm_provider model =
     (case segment_chunks cl splitter document_lines llm_provider model segment of
        Inl e \<Rightarrow> Inl e
      | Inr (chunk_dicts, calls) \<Rightarrow>
          (case get_chunks_from_segments cl splitter segments document_lines llm_provider model of
             Inl e \<Rightarrow> Inl e
           | Inr (all_chunk_dicts, all_calls) \<Rightarrow>
               Inr (chunk_dicts @ all_chunk_dicts, calls @ all_calls)))"

section \<open>Window walker\<close>

text \<open>
  The loop \<^verbatim>\<open>for _ in range(max_iterations)\<close> of \<^verbatim>\<open>get_sections\<close>, by recursion on
  the iterations left. Leaving the loop, by \<^verbatim>\<open>break\<close> or because the range is
  used up, goes on to the statement after it with the sections collected so far.
\<close>

fun get_sections_loop ::
  "clients \<Rightarrow> string list \<Rightarrow> int \<Rightarrow> string \<Rightarrow> string \<Rightarrow> nat \<Rightarrow> int \<Rightarrow> Section list
     \<Rightarrow> py_error + Section list" where
  "get_sections_loop cl document_lines max_characters llm_provider model 0
       start_line all_sections = Inr all_sections"
| "get_sections_loop cl document_lines max_characters llm_provider model (Suc n)
       start_line all_sections =
     (case get_document_with_lines document_lines start_line max_characters of
        Inl e \<Rightarrow> Inl e
      | Inr (document_with_line_numbers, end_line) \<Rightarrow>
          (case get_structured_document cl document_with_line_numbers start_line end_line
                  llm_provider model of
             Inl e \<Rightarrow> Inl e
           | Inr new_sections \<Rightarrow>
               (let all_sections' = all_sections @ new_sections
                in if end_line \<ge> int (length document_lines) - 1 then Inr all_sections'
                   else if length new_sections > 1
                   then get_sections_loop cl document_lines max_characters llm_provider model n
                          (start_index (last all_sections')) (butlast all_sections')
                   else get_sections_loop cl document_lines max_characters llm_provider model n
                          (end_line + 1) all_sections')))"

definition get_sections ::
  "clients \<Rightarrow> string \<Rightarrow> int \<Rightarrow> string \<Rightarrow> string
     \<Rightarrow> py_error + (SectionDict list \<times> string list)" where
  "get_sections cl document max_characters llm_provider model =
     (if max_characters = 0 then Inl ZeroDivisionError
      else (let max_iterations = 2 * (int (length document) div max_characters + 1);
                document_lines = get_document_lines document
            in case get_sections_loop cl document_lines max_characters llm_provider model
                      (nat max_iterations) 0 [] of
                 Inl e \<Rightarrow> Inl e
               | Inr all_sections \<Rightarrow>
                   Inr (get_sections_text all_sections document_lines, document_lines)))"

section \<open>Partition validator and normalizer\<close>

text \<open>
  Modelled from the spec: \<^verbatim>\<open>is_valid_partition\<close> of \<^verbatim>\<open>dsrag/semantic_sectioning.py\<close>,
  which the tests import and which is not among the source files. The spec (4.1) has it
  check, in order and stopping at the first violation: the list is non-empty; the first
  start is \<open>a\<close>; the last end is \<open>b\<close>; every section has start \<open>\<le>\<close> end; every adjacent
  pair has \<open>sections[i+1].start = sections[i].end + 1\<close>.
\<close>

fun starts_before_ends :: "Section list \<Rightarrow> bool" where
  "starts_before_ends [] = True"
| "starts_before_ends (s # rest) =
     (if start_index s \<le> end_index s then starts_before_ends rest else False)"

fun adjacent_pairs_meet :: "Section list \<Rightarrow> bool" where
  "adjacent_pairs_meet [] = True"
| "adjacent_pairs_meet [s] = True"
| "adjacent_pairs_meet (s # t # rest) =
     (if start_index t = end_index s + 1 then adjacent_pairs_meet (t # rest) else False)"

definition is_valid_partition :: "Section list \<Rightarrow> int \<Rightarrow> int \<Rightarrow> bool" where
  "is_valid_partition sections a b =
     (if sections = [] then False
      else if start_index (hd sections) \<noteq> a then False
      else if end_index (last sections) \<noteq> b then False
      else if \<not> starts_before_ends sections then False
      else adjacent_pairs_meet sections)"

text \<open>
  Modelled from the spec: \<^verbatim>\<open>partition_sections\<close> of \<^verbatim>\<open>dsrag/semantic_sectioning.py\<close>,
  not among the source files either; only its twelve tests are. The spec (4.2) gives it
  as one left-to-right pass over the candidates in input order, with one candidate of
  lookahead and a cursor that starts at \<open>a\<close>:
  \<^enum> a candidate with start \<open>>\<close> end is dropped before consideration;
  \<^enum> a candidate whose end is below the cursor is dropped, with no placeholder;
  \<^enum> while the next candidate is contained in the current one (\<open>next.start \<le> current.end\<close>
    and \<open>next.end \<le> current.end\<close>) the next one is dropped;
  \<^enum> if the next candidate then reaches further (\<open>next.start \<le> current.end\<close> and
    \<open>next.end > current.end\<close>), the current one is not emitted: a titleless placeholder for
    \<open>[max(cursor, current.start), next.start - 1]\<close> is emitted if that range is non-empty,
    and the cursor moves to \<open>next.start\<close>;
  \<^enum> otherwise a titleless placeholder \<open>[cursor, candidate.start - 1]\<close> is emitted if
    \<open>candidate.start > cursor\<close>, then the candidate unchanged, and the cursor moves to
    \<open>candidate.end + 1\<close>;
  \<^enum> after the last candidate, a titleless placeholder \<open>[cursor, b]\<close> if \<open>cursor \<le> b\<close>;
  \<^enum> if no candidate survives the first two rules, the output is the placeholder \<open>[a, b]\<close>.

  In two places these rules alone give another result than the repository's tests
  expect, and there the model follows the tests and the properties of the spec (8):
  \<^item> a candidate that does not lie within \<open>[a, b]\<close> is dropped with the malformed ones
    (\<^verbatim>\<open>test__sections_outside\<close>; "all-out-of-range input collapses to the single
    placeholder");
  \<^item> in the fourth rule the gap \<open>[cursor, current.start - 1]\<close> before the current candidate
    gets its placeholder first, as in the fifth (\<^verbatim>\<open>test__gap_then_overlapping_section\<close>
    expects the placeholders 4 to 6 and 7 to 9).
\<close>

definition placeholder :: "int \<Rightarrow> int \<Rightarrow> Section" where
  "placeholder s e = \<lparr>title = [], start_index = s, end_index = e\<rparr>"

definition gap_placeholder :: "int \<Rightarrow> Section \<Rightarrow> Section list" where
  "gap_placeholder cursor current =
     (if start_index current > cursor
      then [placeholder cursor (start_index current - 1)] else [])"

fun partition_pass :: "int \<Rightarrow> int \<Rightarrow> Section list \<Rightarrow> Section list" where
  "partition_pass b cursor [] = (if cursor \<le> b then [placeholder cursor b] else [])"
| "partition_pass b cursor [current] =
     (if end_index current < cursor then partition_pass b cursor []
      else gap_placeholder cursor current
           @ current # partition_pass b (end_index current + 1) [])"
| "partition_pass b cursor (current # next # rest) =
     (if end_index current < cursor then partition_pass b cursor (next # rest)
      else if start_index next \<le> end_index current \<and> end_index next \<le> end_index current
      then partition_pass b cursor (current # rest)
      else if start_index next \<le> end_index current \<and> end_index next > end_index current
      then gap_placeholder cursor current
           @ (if start_index next - 1 \<ge> max cursor (start_index current)
              then [placeholder (max cursor (start_index current)) (start_index next - 1)]
              else [])
           @ partition_pass b (start_index next) (next # rest)
      else gap_placeholder cursor current
           @ current # partition_pass b (end_index current + 1) (next # rest))"

text \<open>The candidates that are considered at all: well-formed and within \<open>[a, b]\<close>.\<close>

definition considered :: "int \<Rightarrow> int \<Rightarrow> Section list \<Rightarrow> Section list" where
  "considered a b candidates =
     filter (\<lambda>s. \<not> start_index s > end_index s \<and> a \<le> start_index s \<and> end_index s \<le> b)
       candidates"

definition partition_sections :: "Section list \<Rightarrow> int \<Rightarrow> int \<Rightarrow> Section list" where
  "partition_sections candidates a b =
     (let kept = considered a b candidates
      in if filter (\<lambda>s. \<not> end_index s < a) kept = [] then [placeholder a b]
         else partition_pass b a kept)"

section \<open>Notions used to state the properties\<close>



text \<open>The lines \<open>s .. e\<close> of a document, for \<open>0 \<le> s\<close>.\<close>

definition lines_between :: "string list \<Rightarrow> int \<Rightarrow> int \<Rightarrow> string list" where
  "lines_between document_lines s e = map (\<lambda>i. document_lines ! nat i) [s..e]"



text \<open>
  \<^verbatim>\<open>document_lines[i]\<close> where it does not raise: a negative index counts from the end.
\<close>

definition py_line :: "string list \<Rightarrow> int \<Rightarrow> string" where
  "py_line document_lines i =
     (if i < 0 then document_lines ! nat (int (length document_lines) + i)
      else document_lines ! nat i)"

text \<open>
  A stub oracle that never advances the cursor: whatever the window, it answers with two
  sections that both start at line 0. It never raises.
\<close>

definition stuck_sections :: "Section list" where
  "stuck_sections =
     [\<lparr>title = ''A'', start_index = 0, end_index = 0\<rparr>,
      \<lparr>title = ''B'', start_index = 0, end_index = 0\<rparr>]"

definition stuck_clients :: clients where
  "stuck_clients =
     \<lparr>anthropic_sections = (\<lambda>model text' s e. Inr stuck_sections),
      openai_sections = (\<lambda>model text' s e. Inr stuck_sections),
      anthropic_chunks = (\<lambda>model text' s mn mx. Inr []),
      openai_chunks = (\<lambda>model text' s mn mx. Inr [])\<rparr>"

text \<open>A stub oracle that proposes a single chunk starting at line 0.\<close>

definition one_chunk_clients :: clients where
  "one_chunk_clients =
     \<lparr>anthropic_sections = (\<lambda>model text' s e. Inr []),
      openai_sections = (\<lambda>model text' s e. Inr []),
      anthropic_chunks = (\<lambda>model text' s mn mx. Inr [\<lparr>chunk_start_index = 0\<rparr>]),
      openai_chunks = (\<lambda>model text' s mn mx. Inr [\<lparr>chunk_start_index = 0\<rparr>])\<rparr>"

text \<open>A stub oracle that proposes two chunks, starting at lines 0 and 1.\<close>

definition two_chunk_clients :: clients where
  "two_chunk_clients =
     \<lparr>anthropic_sections = (\<lambda>model text' s e. Inr []),
      openai_sections = (\<lambda>model text' s e. Inr []),
      anthropic_chunks =
        (\<lambda>model text' s mn mx. Inr [\<lparr>chunk_start_index = 0\<rparr>, \<lparr>chunk_start_index = 1\<rparr>]),
      openai_chunks =
        (\<lambda>model text' s mn mx. Inr [\<lparr>chunk_start_index = 0\<rparr>, \<lparr>chunk_start_index = 1\<rparr>])\<rparr>"

text \<open>A stub splitter that returns its text as one piece.\<close>

definition single_piece_splitter :: "string \<Rightarrow> string list" where
  "single_piece_splitter document_text = [document_text]"



text \<open>The input of the repository's test of a complete partition.\<close>

definition complete_partition :: "Section list" where
  "complete_partition =
     [\<lparr>title = ''Introduction'', start_index = 0, end_index = 4\<rparr>,
      \<lparr>title = ''Body'', start_index = 5, end_index = 9\<rparr>,
      \<lparr>title = ''Conclusion'', start_index = 10, end_index = 14\<rparr>]"

section \<open>Chunk target estimator: properties\<close>

text \<open>
  C8. For a positive \<open>max_characters\<close>, \<open>get_target_num_chunks\<close> returns \<open>(1, 2)\<close> when
  \<open>expected = len(text) // max_characters + 1\<close> is below 2 and \<open>(expected - 1, expected + 1)\<close>
  otherwise; the 46-character test string with budget 20 gives \<open>(2, 4)\<close> and \<open>short\<close> with
  budget 200 gives \<open>(1, 2)\<close>.
\<close>

theorem get_target_num_chunks_band:
  assumes "0 < max_characters"
  shows "get_target_num_chunks text max_characters =
           Inr (if int (length text) div max_characters + 1 < 2 then (1, 2)
                else (int (length text) div max_characters + 1 - 1,
                      int (length text) div max_characters + 1 + 1))
         \<and> get_target_num_chunks ''This is a random string of a lot of characters'' 20 = Inr (2, 4)
         \<and> length ''This is a random string of a lot of characters'' = 46
         \<and> get_target_num_chunks ''short'' 200 = Inr (1, 2)"
  using assms by (simp add: get_target_num_chunks_def Let_def)

theorem get_target_num_chunks_band_witness:
  "(0::int) < 20 \<and> get_target_num_chunks (replicate 46 CHR ''x'') 20 = Inr (2, 4)"
  using get_target_num_chunks_band [of 20 "replicate 46 CHR ''x''"] by simp

section \<open>Fallback decision: properties\<close>

text \<open>
  C9. \<open>check_for_fallback_chunking_usage\<close> is true exactly when the number of chunks is
  below \<open>min // 2\<close> or above \<open>max * 2\<close>, that is outside the closed interval between them;
  six chunks against \<open>(1, 2)\<close> trip it and three chunks against \<open>(2, 4)\<close> do not.
\<close>

theorem check_for_fallback_chunking_usage_iff:
  "check_for_fallback_chunking_usage min_num_chunks max_num_chunks chunks =
     (int (length chunks) < min_num_chunks div 2 \<or> int (length chunks) > max_num_chunks * 2)
   \<and> check_for_fallback_chunking_usage min_num_chunks max_num_chunks chunks =
     (int (length chunks) \<notin> {min_num_chunks div 2 .. max_num_chunks * 2})
   \<and> check_for_fallback_chunking_usage 1 2 [c1, c2, c3, c4, c5, c6] = True
   \<and> check_for_fallback_chunking_usage 2 4 [d1, d2, d3] = False"
  by (auto simp add: check_for_fallback_chunking_usage_def)

section \<open>Window text: properties\<close>









section \<open>Content materializer: properties\<close>

text \<open>
  C3, evaluated on two sections over four lines. The claim gives section A the lines
  0 to 1 and section B the lines 2 to 3; the slice stops one line short of the reported
  end, so A holds line 0 only and B holds line 2 only, while the \<open>end\<close> fields are 1 and 3.
\<close>

theorem get_sections_text_drops_last_line:
  "get_sections_text
     [\<lparr>title = ''A'', start_index = 0, end_index = 1\<rparr>,
      \<lparr>title = ''B'', start_index = 2, end_index = 3\<rparr>]
     [''l0'', ''l1'', ''l2'', ''l3'']
   = [\<lparr>sd_title = ''A'', sd_content = ''l0'', sd_start = 0, sd_end = 1\<rparr>,
      \<lparr>sd_title = ''B'', sd_content = ''l2'', sd_start = 2, sd_end = 3\<rparr>]
   \<and> join_nl (lines_between [''l0'', ''l1'', ''l2'', ''l3''] 0 1) = ''l0'' @ [newline] @ ''l1''
   \<and> join_nl (lines_between [''l0'', ''l1'', ''l2'', ''l3''] 2 3) = ''l2'' @ [newline] @ ''l3''"
  by code_simp

section \<open>Chunks from segments: properties\<close>

text \<open>The repository's test of \<open>get_chunk_content\<close>, before its \<^verbatim>\<open>rstrip\<close>.\<close>

lemma get_chunk_content_test:
  "get_chunk_content 0 2
     [''This is a random string of text.'', ''More test text.'', ''Even more test text.'',
      ''Text that should be ignored.'']
   = Inr (''This is a random string of text.'' @ [newline] @ ''More test text.'' @ [newline]
          @ ''Even more test text.'' @ [newline])"
  by code_simp

text \<open>
  C4, evaluated on a segment that is line 0 of a two-line document, long enough to be
  sent to the oracle, which proposes one chunk starting at line 0. The chunk is accepted,
  and its content runs to the last line of the document, past the end of the segment:
  it holds line 1 as well, where the segment's own lines are line 0 alone.
\<close>

theorem last_chunk_runs_to_document_end:
  "get_chunks_from_segments one_chunk_clients single_piece_splitter
     [\<lparr>sd_title = ''A'', sd_content = [], sd_start = 0, sd_end = 0\<rparr>]
     [replicate 2000 CHR ''x'', ''tail''] ''openai'' ''m''
   = Inr ([\<lparr>cd_title = ''A'',
            cd_content = replicate 2000 CHR ''x'' @ [newline] @ ''tail'' @ [newline]\<rparr>],
          [ChunkOracleCall (''[0] '' @ replicate 2000 CHR ''x'' @ [newline]) 0 1 3])
   \<and> get_chunk_content 0 0 [replicate 2000 CHR ''x'', ''tail'']
       = Inr (replicate 2000 CHR ''x'' @ [newline])"
  by (simp add: segment_chunks_def py_index_def numbered_line_def str_int_def str_nat.simps
      get_target_num_chunks_def check_for_fallback_chunking_usage_def get_structured_chunks_def
      one_chunk_clients_def chunk_end_index_def get_chunk_content_def upto_rec1 Let_def)

lemma py_index_Inr_line:
  assumes "py_index xs i = Inr x"
  shows "x = py_line xs i \<and> - int (length xs) \<le> i \<and> i < int (length xs)"
  using assms by (auto simp add: py_index_def py_line_def split: if_splits)

lemma numbered_lines_loop_chunk_content:
  assumes "numbered_lines_loop ls acc idxs = Inr r"
  shows "chunk_content_loop ls acc' idxs =
           Inr (acc' @ concat (map (\<lambda>i. py_line ls i @ [newline]) idxs))
         \<and> (\<forall>i \<in> set idxs. i < int (length ls))"
  using assms
proof (induction idxs arbitrary: acc acc')
  case Nil
  then show ?case by simp
next
  case (Cons i idxs)
  from Cons.prems obtain line where line: "py_index ls i = Inr line"
    by (cases "py_index ls i") auto
  with Cons.prems have "numbered_lines_loop ls (acc @ numbered_line i line) idxs = Inr r"
    by simp
  from Cons.IH [OF this, of "acc' @ line @ [newline]"] py_index_Inr_line [OF line] line
  show ?case by simp
qed

lemma py_slice_nonneg:
  assumes "0 \<le> s" "s \<le> h" "h \<le> int (length ls)"
  shows "py_slice ls s h = take (nat (h - s)) (drop (nat s) ls)"
proof -
  have "py_clamp (length ls) s = nat s" "py_clamp (length ls) h = nat h"
    using assms by (simp_all add: py_clamp_def)
  moreover have "nat h - nat s = nat (h - s)" using assms by simp
  ultimately show ?thesis by (simp add: py_slice_def Let_def)
qed

lemma lines_upto_slice:
  assumes "0 \<le> s" "s \<le> e" "e < int (length ls)"
  shows "map (\<lambda>i. py_line ls i) [s..e] = py_slice ls s (e + 1)"
proof -
  have sl: "py_slice ls s (e + 1) = take (nat (e + 1 - s)) (drop (nat s) ls)"
    using assms by (intro py_slice_nonneg) simp_all
  show ?thesis unfolding sl
  proof (rule nth_equalityI)
    show "length (map (\<lambda>i. py_line ls i) [s..e]) = length (take (nat (e + 1 - s)) (drop (nat s) ls))"
      using assms by simp
  next
    fix k assume "k < length (map (\<lambda>i. py_line ls i) [s..e])"
    then have k: "int k < e + 1 - s" using assms by simp
    then have "[s..e] ! k = s + int k" by simp
    moreover have "nat (s + int k) = nat s + k" using assms by simp
    ultimately show "map (\<lambda>i. py_line ls i) [s..e] ! k = take (nat (e + 1 - s)) (drop (nat s) ls) ! k"
      using k assms by (simp add: py_line_def)
  qed
qed

lemma py_slice_snoc:
  assumes "0 \<le> s" "s \<le> e" "e < int (length ls)"
  shows "py_slice ls s (e + 1) = py_slice ls s e @ [ls ! nat e]"
proof -
  have a: "py_slice ls s (e + 1) = take (nat (e + 1 - s)) (drop (nat s) ls)"
    using assms by (intro py_slice_nonneg) simp_all
  have b: "py_slice ls s e = take (nat (e - s)) (drop (nat s) ls)"
    using assms by (intro py_slice_nonneg) simp_all
  have c: "nat (e + 1 - s) = Suc (nat (e - s))" using assms by simp
  have d: "nat (e - s) < length (drop (nat s) ls)" using assms by simp
  have e': "drop (nat s) ls ! nat (e - s) = ls ! nat e" using assms by (simp add: nat_diff_distrib)
  show ?thesis unfolding a b c using take_Suc_conv_app_nth [OF d] e' by simp
qed

lemma py_slice_nonempty:
  assumes "0 \<le> s" "s < e" "e \<le> int (length ls)"
  shows "py_slice ls s e \<noteq> []"
proof -
  have "py_slice ls s e = take (nat (e - s)) (drop (nat s) ls)"
    using assms by (intro py_slice_nonneg) simp_all
  then show ?thesis using assms by simp
qed

lemma concat_newline_join:
  "xs \<noteq> [] \<Longrightarrow> concat (map (\<lambda>l. l @ [newline]) xs) = join_nl xs @ [newline]"
  by (induction xs rule: join_nl.induct) simp_all

lemma join_nl_snoc:
  "xs \<noteq> [] \<Longrightarrow> join_nl (xs @ [x]) = join_nl xs @ newline # x"
  by (induction xs rule: join_nl.induct) simp_all

text \<open>
  C6, as amended. The threshold is on the numbered text of the segment, each line as
  \<^verbatim>\<open>"[i] " + line + newline\<close>, not on the segment's own characters. A segment whose
  numbered text is under 2000 characters is never sub-chunked: whatever the oracle and the
  splitter are, it contributes exactly one chunk, with the segment's title, and no call
  to either collaborator; the chunks and calls of the remaining segments follow
  unchanged. The content of that chunk is every line \<open>start\<close> to \<open>end\<close> of the segment, each
  followed by a newline: for \<open>0 \<le> start \<le> end\<close> it is
  \<^verbatim>\<open>"\n".join(document_lines[start:end+1]) + "\n"\<close>. It is not the \<open>content\<close> field of the
  segment: where that field is what \<open>get_sections_text\<close> stores,
  \<^verbatim>\<open>"\n".join(document_lines[start:end])\<close> with \<open>start < end\<close>, the chunk is the field
  followed by a newline, line \<open>end\<close> and a newline.
\<close>

theorem small_segment_single_chunk:
  assumes "numbered_lines_loop document_lines [] [sd_start segment .. sd_end segment] = Inr numbered"
    and "length numbered < 2000"
  shows "\<exists>content.
           get_chunk_content (sd_start segment) (sd_end segment) document_lines = Inr content
         \<and> segment_chunks cl splitter document_lines llm_provider model segment =
             Inr ([\<lparr>cd_title = sd_title segment, cd_content = content\<rparr>], [])
         \<and> get_chunks_from_segments cl splitter (segment # segments) document_lines
               llm_provider model =
             (case get_chunks_from_segments cl splitter segments document_lines
                     llm_provider model of
                Inl e \<Rightarrow> Inl e
              | Inr (all_chunk_dicts, all_calls) \<Rightarrow>
                  Inr (\<lparr>cd_title = sd_title segment, cd_content = content\<rparr> # all_chunk_dicts,
                       all_calls))
         \<and> content = concat (map (\<lambda>i. py_line document_lines i @ [newline])
                               [sd_start segment .. sd_end segment])
         \<and> (0 \<le> sd_start segment \<and> sd_start segment \<le> sd_end segment \<longrightarrow>
               content = join_nl (py_slice document_lines (sd_start segment)
                                    (sd_end segment + 1)) @ [newline])
         \<and> (0 \<le> sd_start segment \<and> sd_start segment < sd_end segment
              \<and> sd_content segment =
                  join_nl (py_slice document_lines (sd_start segment) (sd_end segment)) \<longrightarrow>
               content = sd_content segment @ [newline]
                           @ document_lines ! nat (sd_end segment) @ [newline])"
proof -
  let ?s = "sd_start segment" and ?e = "sd_end segment"
  let ?c = "concat (map (\<lambda>i. py_line document_lines i @ [newline]) [?s .. ?e])"
  from numbered_lines_loop_chunk_content [OF assms(1), of "[]"]
  have c: "chunk_content_loop document_lines [] [?s .. ?e] = Inr ?c"
    and inside: "\<forall>i \<in> set [?s .. ?e]. i < int (length document_lines)"
    by simp_all
  have gcc: "get_chunk_content ?s ?e document_lines = Inr ?c"
    using c by (simp add: get_chunk_content_def)
  have seg: "segment_chunks cl splitter document_lines llm_provider model segment =
             Inr ([\<lparr>cd_title = sd_title segment, cd_content = ?c\<rparr>], [])"
    using assms gcc by (simp add: segment_chunks_def Let_def)
  have whole: "get_chunks_from_segments cl splitter (segment # segments) document_lines
               llm_provider model =
             (case get_chunks_from_segments cl splitter segments document_lines
                     llm_provider model of
                Inl e \<Rightarrow> Inl e
              | Inr (all_chunk_dicts, all_calls) \<Rightarrow>
                  Inr (\<lparr>cd_title = sd_title segment, cd_content = ?c\<rparr> # all_chunk_dicts,
                       all_calls))"
    by (simp add: seg split: sum.splits)
  have slice: "0 \<le> ?s \<and> ?s \<le> ?e \<longrightarrow>
                 ?c = join_nl (py_slice document_lines ?s (?e + 1)) @ [newline]"
  proof
    assume r: "0 \<le> ?s \<and> ?s \<le> ?e"
    then have lt: "?e < int (length document_lines)" using inside by simp
    have m: "map (\<lambda>i. py_line document_lines i) [?s .. ?e] = py_slice document_lines ?s (?e + 1)"
      using r lt by (intro lines_upto_slice) simp_all
    have ne: "py_slice document_lines ?s (?e + 1) \<noteq> []"
      using r lt by (intro py_slice_nonempty) simp_all
    have "?c = concat (map (\<lambda>l. l @ [newline]) (map (\<lambda>i. py_line document_lines i) [?s .. ?e]))"
      by (simp add: comp_def)
    then show "?c = join_nl (py_slice document_lines ?s (?e + 1)) @ [newline]"
      using concat_newline_join [OF ne] by (simp only: m)
  qed
  have field: "0 \<le> ?s \<and> ?s < ?e
              \<and> sd_content segment = join_nl (py_slice document_lines ?s ?e) \<longrightarrow>
               ?c = sd_content segment @ [newline] @ document_lines ! nat ?e @ [newline]"
  proof
    assume r: "0 \<le> ?s \<and> ?s < ?e
              \<and> sd_content segment = join_nl (py_slice document_lines ?s ?e)"
    then have lt: "?e < int (length document_lines)" using inside by simp
    have sn: "py_slice document_lines ?s (?e + 1) =
              py_slice document_lines ?s ?e @ [document_lines ! nat ?e]"
      using r lt by (intro py_slice_snoc) simp_all
    have ne: "py_slice document_lines ?s ?e \<noteq> []"
      using r lt by (intro py_slice_nonempty) simp_all
    have "?c = join_nl (py_slice document_lines ?s (?e + 1)) @ [newline]"
      using slice r by simp
    then show "?c = sd_content segment @ [newline] @ document_lines ! nat ?e @ [newline]"
      using r join_nl_snoc [OF ne, of "document_lines ! nat ?e"] by (simp add: sn)
  qed
  show ?thesis using gcc seg whole slice field by blast
qed

theorem small_segment_single_chunk_witness:
  "get_chunks_from_segments one_chunk_clients single_piece_splitter
     [\<lparr>sd_title = ''A'', sd_content = ''abc'', sd_start = 0, sd_end = 1\<rparr>]
     [''abc'', ''de'', ''tail''] ''openai'' ''m''
   = Inr ([\<lparr>cd_title = ''A'', cd_content = ''abc'' @ [newline] @ ''de'' @ [newline]\<rparr>], [])"
proof -
  let ?seg = "\<lparr>sd_title = ''A'', sd_content = ''abc'', sd_start = 0, sd_end = 1\<rparr>"
  let ?ls = "[''abc'', ''de'', ''tail'']"
  have up: "[0 .. 1::int] = [0, 1]" by (simp add: upto_rec1)
  have a: "numbered_lines_loop ?ls [] [sd_start ?seg .. sd_end ?seg]
           = Inr (numbered_line 0 ''abc'' @ numbered_line 1 ''de'')"
    by (simp add: py_index_def up)
  have b: "length (numbered_line 0 ''abc'' @ numbered_line 1 ''de'') < 2000"
    by (simp add: numbered_line_def str_int_def str_nat.simps)
  have c: "sd_content ?seg = join_nl (py_slice ?ls (sd_start ?seg) (sd_end ?seg))"
    by (simp add: py_slice_def py_clamp_def)
  from small_segment_single_chunk
         [OF a b, of one_chunk_clients single_piece_splitter "''openai''" "''m''" "[]"] c
  show ?thesis
    by auto
qed

text \<open>
  C6 as stated, refuted: a segment of two lines of 996 characters has 1993 characters
  of content, under 2000, but its numbered text has 2002. It is sent to the oracle, and
  with the stub that proposes chunks at lines 0 and 1 two chunks come out.
\<close>

theorem segment_under_threshold_sub_chunked:
  "get_chunks_from_segments two_chunk_clients single_piece_splitter
     [\<lparr>sd_title = ''A'',
       sd_content = replicate 996 CHR ''x'' @ [newline] @ replicate 996 CHR ''y'',
       sd_start = 0, sd_end = 1\<rparr>]
     [replicate 996 CHR ''x'', replicate 996 CHR ''y''] ''openai'' ''m''
   = Inr ([\<lparr>cd_title = ''A'', cd_content = replicate 996 CHR ''x'' @ [newline]\<rparr>,
           \<lparr>cd_title = ''A'', cd_content = replicate 996 CHR ''y'' @ [newline]\<rparr>],
          [ChunkOracleCall
             (''[0] '' @ replicate 996 CHR ''x'' @ [newline]
                @ ''[1] '' @ replicate 996 CHR ''y'' @ [newline]) 0 1 3])
   \<and> length (replicate 996 CHR ''x'' @ [newline] @ replicate 996 CHR ''y'') = 1993"
  by (simp add: segment_chunks_def py_index_def numbered_line_def str_int_def str_nat.simps
      get_target_num_chunks_def check_for_fallback_chunking_usage_def get_structured_chunks_def
      two_chunk_clients_def chunk_end_index_def get_chunk_content_def upto_rec1 Let_def)

section \<open>Window walker: properties\<close>

lemma get_sections_loop_stuck:
  assumes w: "get_document_with_lines ls 0 mc = Inr (w, e)"
    and e: "e < int (length ls) - 1"
    and o: "get_structured_document cl w 0 e llm_provider model = Inr secs"
    and len: "length secs > 1"
    and st: "start_index (last secs) = 0"
  shows "get_sections_loop cl ls mc llm_provider model n 0 acc =
           Inr (acc @ concat (replicate n (butlast secs)))"
proof (induction n arbitrary: acc)
  case 0
  show ?case by simp
next
  case (Suc n)
  have ne: "secs \<noteq> []" using len by auto
  have "get_sections_loop cl ls mc llm_provider model (Suc n) 0 acc =
        get_sections_loop cl ls mc llm_provider model n 0 (acc @ butlast secs)"
    using w e o len st ne by (simp add: Let_def butlast_append)
  also have "\<dots> = Inr ((acc @ butlast secs) @ concat (replicate n (butlast secs)))"
    by (rule Suc.IH)
  finally show ?case by simp
qed

text \<open>
  C5, as amended. Let the oracle never advance the cursor: for the window that starts at
  line 0 it answers, without raising, more than one section, the last of which starts at
  line 0 again; and let that window stop before the document's last line. Then
  \<open>get_sections\<close> runs all \<open>2 * (len(document) // max_characters + 1)\<close> iterations and
  returns normally: the result is \<open>get_sections_text\<close> of the sections collected so far
  (each iteration's answer without its last section), with the document lines. No error
  is raised.
\<close>

theorem get_sections_cap_exhausted_returns:
  assumes "max_characters \<noteq> 0"
    and "get_document_with_lines (get_document_lines document) 0 max_characters = Inr (w, e)"
    and "e < int (length (get_document_lines document)) - 1"
    and "get_structured_document cl w 0 e llm_provider model = Inr secs"
    and "length secs > 1"
    and "start_index (last secs) = 0"
  shows "get_sections cl document max_characters llm_provider model =
           Inr (get_sections_text
                  (concat (replicate (nat (2 * (int (length document) div max_characters + 1)))
                             (butlast secs)))
                  (get_document_lines document),
                get_document_lines document)"
  using assms(1) get_sections_loop_stuck [OF assms(2-6), of _ "[]"]
  by (simp add: get_sections_def Let_def)

lemma stuck_window:
  "get_document_with_lines (get_document_lines (''abcd'' @ [newline])) 0 3
     = Inr (''[0] abcd'' @ [newline], 0)"
  by code_simp

lemma stuck_lines: "get_document_lines (''abcd'' @ [newline]) = [''abcd'', []]"
  by code_simp

theorem get_sections_cap_exhausted_returns_witness:
  "get_sections stuck_clients (''abcd'' @ [newline]) 3 ''openai'' ''m'' =
     Inr (get_sections_text
            (concat (replicate 4 [\<lparr>title = ''A'', start_index = 0, end_index = 0\<rparr>]))
            [''abcd'', []],
          [''abcd'', []])"
proof -
  have a: "(3::int) \<noteq> 0" by simp
  have c: "0 < int (length (get_document_lines (''abcd'' @ [newline]))) - 1"
    unfolding stuck_lines by simp
  have d: "get_structured_document stuck_clients (''[0] abcd'' @ [newline]) 0 0 ''openai'' ''m''
            = Inr stuck_sections"
    by (simp add: get_structured_document_def stuck_clients_def)
  have f: "length stuck_sections > 1" by (simp add: stuck_sections_def)
  have g: "start_index (last stuck_sections) = 0" by (simp add: stuck_sections_def)
  have n: "nat (2 * (int (length (''abcd'' @ [newline])) div 3 + 1)) = 4" by simp
  from get_sections_cap_exhausted_returns [OF a stuck_window c d f g]
  show ?thesis
    by (simp only: n stuck_lines) (simp add: stuck_sections_def)
qed

text \<open>
  C5 as stated, refuted: a two-line document with budget 3 and the stub oracle that always
  answers two sections starting at line 0. The first window stops at line 0, before the
  last line 1; the cap is 4 iterations; the call returns four section dictionaries.
\<close>

theorem get_sections_cap_exhausted_no_error:
  "get_sections stuck_clients (''abcd'' @ [newline]) 3 ''openai'' ''m'' =
     Inr ([\<lparr>sd_title = ''A'', sd_content = ''abcd'', sd_start = 0, sd_end = - 1\<rparr>,
           \<lparr>sd_title = ''A'', sd_content = ''abcd'', sd_start = 0, sd_end = - 1\<rparr>,
           \<lparr>sd_title = ''A'', sd_content = ''abcd'', sd_start = 0, sd_end = - 1\<rparr>,
           \<lparr>sd_title = ''A'', sd_content = ''abcd'', sd_start = 0, sd_end = 1\<rparr>],
          [''abcd'', []])
   \<and> get_document_with_lines [''abcd'', []] 0 3 = Inr (''[0] abcd'' @ [newline], 0)
   \<and> (0::int) < int (length [''abcd'', []]) - 1"
  by code_simp

section \<open>Partition validator: properties\<close>

lemma starts_before_ends_nth:
  "starts_before_ends xs = (\<forall>i < length xs. start_index (xs ! i) \<le> end_index (xs ! i))"
proof (induction xs)
  case Nil
  show ?case by simp
next
  case (Cons x xs)
  show ?case by (simp add: Cons.IH All_less_Suc2) 
qed

lemma adjacent_pairs_meet_nth:
  "adjacent_pairs_meet xs =
     (\<forall>i. i + 1 < length xs \<longrightarrow> start_index (xs ! (i + 1)) = end_index (xs ! i) + 1)"
proof (induction xs rule: adjacent_pairs_meet.induct)
  case 1
  show ?case by simp
next
  case (2 s)
  show ?case by simp
next
  case (3 s t rest)
  have "(\<forall>i. i + 1 < length (s # t # rest) \<longrightarrow>
            start_index ((s # t # rest) ! (i + 1)) = end_index ((s # t # rest) ! i) + 1)
        = (start_index t = end_index s + 1 \<and>
           (\<forall>i. i + 1 < length (t # rest) \<longrightarrow>
            start_index ((t # rest) ! (i + 1)) = end_index ((t # rest) ! i) + 1))"
    (is "?L = (?A \<and> ?B)")
  proof
    assume l: ?L
    have "?A" using l [rule_format, of 0] by simp
    moreover have "?B"
    proof (intro allI impI)
      fix i assume "i + 1 < length (t # rest)"
      then show "start_index ((t # rest) ! (i + 1)) = end_index ((t # rest) ! i) + 1"
        using l [rule_format, of "Suc i"] by simp
    qed
    ultimately show "?A \<and> ?B" by simp
  next
    assume r: "?A \<and> ?B"
    show ?L
    proof (intro allI impI)
      fix i assume i: "i + 1 < length (s # t # rest)"
      show "start_index ((s # t # rest) ! (i + 1)) = end_index ((s # t # rest) ! i) + 1"
      proof (cases i)
        case 0
        then show ?thesis using r by simp
      next
        case (Suc j)
        then show ?thesis using r i by simp
      qed
    qed
  qed
  then show ?case using 3 by simp
qed

text \<open>The model gives the answers that the five tests of the validator expect.\<close>

lemma is_valid_partition_agrees_with_tests:
  "is_valid_partition
     [\<lparr>title = ''Introduction'', start_index = 0, end_index = 4\<rparr>,
      \<lparr>title = ''Body'', start_index = 5, end_index = 9\<rparr>,
      \<lparr>title = ''Conclusion'', start_index = 10, end_index = 14\<rparr>] 0 14"
  "\<not> is_valid_partition
     [\<lparr>title = ''Introduction'', start_index = 0, end_index = 4\<rparr>,
      \<lparr>title = ''Body'', start_index = 5, end_index = 8\<rparr>,
      \<lparr>title = ''Conclusion'', start_index = 10, end_index = 14\<rparr>] 0 14"
  "\<not> is_valid_partition
     [\<lparr>title = ''Introduction'', start_index = 1, end_index = 4\<rparr>,
      \<lparr>title = ''Body'', start_index = 5, end_index = 9\<rparr>,
      \<lparr>title = ''Conclusion'', start_index = 10, end_index = 14\<rparr>] 0 14"
  "\<not> is_valid_partition
     [\<lparr>title = ''Introduction'', start_index = 0, end_index = 4\<rparr>,
      \<lparr>title = ''Body'', start_index = 5, end_index = 9\<rparr>,
      \<lparr>title = ''Conclusion'', start_index = 10, end_index = 13\<rparr>] 0 14"
  "\<not> is_valid_partition
     [\<lparr>title = ''Introduction'', start_index = 0, end_index = 4\<rparr>,
      \<lparr>title = ''Body'', start_index = 5, end_index = 9\<rparr>,
      \<lparr>title = ''Conclusion'', start_index = 8, end_index = 14\<rparr>] 0 14"
  by code_simp+

text \<open>
  C7. \<open>is_valid_partition sections a b\<close> holds exactly when the list is non-empty, the
  first section starts at \<open>a\<close>, the last one ends at \<open>b\<close>, every section has start \<open>\<le>\<close> end,
  and every adjacent pair has \<open>sections[i+1].start = sections[i].end + 1\<close>. It is a function
  of its three arguments and returns only the truth value.
\<close>

theorem is_valid_partition_iff:
  "is_valid_partition sections a b =
     (sections \<noteq> []
      \<and> start_index (sections ! 0) = a
      \<and> end_index (sections ! (length sections - 1)) = b
      \<and> (\<forall>i < length sections. start_index (sections ! i) \<le> end_index (sections ! i))
      \<and> (\<forall>i. i + 1 < length sections \<longrightarrow>
             start_index (sections ! (i + 1)) = end_index (sections ! i) + 1))"
proof (cases "sections = []")
  case True
  then show ?thesis by (simp add: is_valid_partition_def)
next
  case False
  then have "hd sections = sections ! 0" "last sections = sections ! (length sections - 1)"
    by (simp_all add: hd_conv_nth last_conv_nth)
  then show ?thesis
    using False
    by (auto simp add: is_valid_partition_def starts_before_ends_nth adjacent_pairs_meet_nth)
qed

theorem is_valid_partition_iff_witness:
  "is_valid_partition complete_partition 0 14
   \<and> \<not> is_valid_partition (butlast complete_partition) 0 14"
proof -
  have l: "length complete_partition = 3" by (simp add: complete_partition_def)
  have n: "complete_partition ! 0 = \<lparr>title = ''Introduction'', start_index = 0, end_index = 4\<rparr>"
    "complete_partition ! 1 = \<lparr>title = ''Body'', start_index = 5, end_index = 9\<rparr>"
    "complete_partition ! 2 = \<lparr>title = ''Conclusion'', start_index = 10, end_index = 14\<rparr>"
    by (simp_all add: complete_partition_def)
  have lt3: "\<And>i::nat. i < 3 \<Longrightarrow> i = 0 \<or> i = 1 \<or> i = 2" by arith
  have p: "\<forall>i < length complete_partition.
             start_index (complete_partition ! i) \<le> end_index (complete_partition ! i)"
  proof (intro allI impI)
    fix i assume "i < length complete_partition"
    then have "i = 0 \<or> i = 1 \<or> i = 2" using l by arith
    then show "start_index (complete_partition ! i) \<le> end_index (complete_partition ! i)"
      by (auto simp add: complete_partition_def)
  qed
  have q: "\<forall>i. i + 1 < length complete_partition \<longrightarrow>
             start_index (complete_partition ! (i + 1)) = end_index (complete_partition ! i) + 1"
  proof (intro allI impI)
    fix i assume "i + 1 < length complete_partition"
    then have "i = 0 \<or> i = 1" using l by arith
    then show "start_index (complete_partition ! (i + 1)) = end_index (complete_partition ! i) + 1"
      by (auto simp add: complete_partition_def)
  qed
  have ne: "complete_partition \<noteq> []" using l by auto
  have first: "is_valid_partition complete_partition 0 14"
    using is_valid_partition_iff [of complete_partition 0 14] ne p q n l by simp
  have "end_index (butlast complete_partition ! (length (butlast complete_partition) - 1)) \<noteq> 14"
    by (simp add: complete_partition_def)
  then have second: "\<not> is_valid_partition (butlast complete_partition) 0 14"
    using is_valid_partition_iff [of "butlast complete_partition" 0 14] by simp
  show ?thesis using first second by simp
qed

section \<open>Partition normalizer: properties\<close>

text \<open>The model gives the results that the twelve tests of the normalizer expect.\<close>

lemma partition_sections_agrees_with_tests:
  "partition_sections complete_partition 0 14 = complete_partition"
  "partition_sections
     [\<lparr>title = ''Body'', start_index = 5, end_index = 9\<rparr>,
      \<lparr>title = ''Conclusion'', start_index = 10, end_index = 14\<rparr>] 0 14
   = [\<lparr>title = [], start_index = 0, end_index = 4\<rparr>,
     \<lparr>title = ''Body'', start_index = 5, end_index = 9\<rparr>,
     \<lparr>title = ''Conclusion'', start_index = 10, end_index = 14\<rparr>]"
  "partition_sections
     [\<lparr>title = ''Introduction'', start_index = 0, end_index = 4\<rparr>,
      \<lparr>title = ''Body'', start_index = 5, end_index = 9\<rparr>] 0 14
   = [\<lparr>title = ''Introduction'', start_index = 0, end_index = 4\<rparr>,
     \<lparr>title = ''Body'', start_index = 5, end_index = 9\<rparr>,
     \<lparr>title = [], start_index = 10, end_index = 14\<rparr>]"
  "partition_sections
     [\<lparr>title = ''Introduction'', start_index = 0, end_index = 4\<rparr>,
      \<lparr>title = ''Conclusion'', start_index = 10, end_index = 14\<rparr>] 0 14
   = [\<lparr>title = ''Introduction'', start_index = 0, end_index = 4\<rparr>,
     \<lparr>title = [], start_index = 5, end_index = 9\<rparr>,
     \<lparr>title = ''Conclusion'', start_index = 10, end_index = 14\<rparr>]"
  "partition_sections
     [\<lparr>title = ''Introduction'', start_index = 0, end_index = 4\<rparr>,
      \<lparr>title = ''Middle'', start_index = 10, end_index = 14\<rparr>,
      \<lparr>title = ''Conclusion'', start_index = 20, end_index = 24\<rparr>] 0 24
   = [\<lparr>title = ''Introduction'', start_index = 0, end_index = 4\<rparr>,
     \<lparr>title = [], start_index = 5, end_index = 9\<rparr>,
     \<lparr>title = ''Middle'', start_index = 10, end_index = 14\<rparr>,
     \<lparr>title = [], start_index = 15, end_index = 19\<rparr>,
     \<lparr>title = ''Conclusion'', start_index = 20, end_index = 24\<rparr>]"
  "partition_sections
     [\<lparr>title = ''Introduction'', start_index = 0, end_index = 6\<rparr>,
      \<lparr>title = ''Body'', start_index = 5, end_index = 9\<rparr>,
      \<lparr>title = ''Conclusion'', start_index = 10, end_index = 14\<rparr>] 0 14
   = [\<lparr>title = [], start_index = 0, end_index = 4\<rparr>,
     \<lparr>title = ''Body'', start_index = 5, end_index = 9\<rparr>,
     \<lparr>title = ''Conclusion'', start_index = 10, end_index = 14\<rparr>]"
  "partition_sections
     [\<lparr>title = ''Introduction'', start_index = 0, end_index = 3\<rparr>,
      \<lparr>title = ''Body'', start_index = 7, end_index = 11\<rparr>,
      \<lparr>title = ''Conclusion'', start_index = 10, end_index = 14\<rparr>] 0 14
   = [\<lparr>title = ''Introduction'', start_index = 0, end_index = 3\<rparr>,
     \<lparr>title = [], start_index = 4, end_index = 6\<rparr>,
     \<lparr>title = [], start_index = 7, end_index = 9\<rparr>,
     \<lparr>title = ''Conclusion'', start_index = 10, end_index = 14\<rparr>]"
  "partition_sections
     [\<lparr>title = ''Introduction'', start_index = 0, end_index = 6\<rparr>,
      \<lparr>title = ''Body'', start_index = 5, end_index = 9\<rparr>] 0 14
   = [\<lparr>title = [], start_index = 0, end_index = 4\<rparr>,
     \<lparr>title = ''Body'', start_index = 5, end_index = 9\<rparr>,
     \<lparr>title = [], start_index = 10, end_index = 14\<rparr>]"
  "partition_sections
     [\<lparr>title = ''Introduction'', start_index = 0, end_index = 10\<rparr>,
      \<lparr>title = ''Subset'', start_index = 5, end_index = 9\<rparr>] 0 14
   = [\<lparr>title = ''Introduction'', start_index = 0, end_index = 10\<rparr>,
     \<lparr>title = [], start_index = 11, end_index = 14\<rparr>]"
  "partition_sections
     [\<lparr>title = ''Introduction'', start_index = 0, end_index = 10\<rparr>,
      \<lparr>title = ''Introduction'', start_index = 0, end_index = 10\<rparr>] 0 14
   = [\<lparr>title = ''Introduction'', start_index = 0, end_index = 10\<rparr>,
     \<lparr>title = [], start_index = 11, end_index = 14\<rparr>]"
  "partition_sections
     [\<lparr>title = ''Outside'', start_index = 15, end_index = 20\<rparr>] 0 14
   = [\<lparr>title = [], start_index = 0, end_index = 14\<rparr>]"
  "partition_sections
     [\<lparr>title = ''Invalid'', start_index = 10, end_index = 9\<rparr>] 0 14
   = [\<lparr>title = [], start_index = 0, end_index = 14\<rparr>]"
  by code_simp+
















end
